theory Spec2Isabelle
  imports Complex_Main "HOL-Library.Word"
begin

unbundle bit_operations_syntax

section \<open>Basic types\<close>

text \<open>
  Go's \<open>byte\<close> is an 8-bit word, \<open>[]byte\<close> a list of them.  A Go \<open>string\<close> is a
  sequence of bytes as well; it is kept as an Isabelle \<open>string\<close> so that literals read as in
  the source, and the conversions \<open>[]byte(s)\<close> and \<open>string(b)\<close> are written out.
\<close>

type_synonym byte = "8 word"
type_synonym uint32 = "32 word"
type_synonym uint64 = "64 word"
type_synonym int64 = "64 word"

definition bytes_of_string :: "string \<Rightarrow> byte list" where
  "bytes_of_string s = map (\<lambda>c. of_char c) s"

definition string_of_bytes :: "byte list \<Rightarrow> string" where
  "string_of_bytes b = map (\<lambda>w. char_of (unat w)) b"

section \<open>Floating point values\<close>

text \<open>
  A \<open>float32\<close> travels on the wire as its IEEE-754 bit pattern (\<open>math.Float32bits\<close>), so
  message fields hold the 32 bits.  Where the code computes with floats (the trust ledger,
  the cosine ranking) a float is the value it denotes: a finite real, an infinity, or NaN.
  Zero is unsigned and NaN carries no payload in this view.  Rounding of an exact real
  result to the nearest representable float (or to an infinity on overflow) is the
  parameter \<open>rnd\<close> of every arithmetic operation.
\<close>

type_synonym float32 = "32 word"

datatype fl = NaN | NInf | PInf | Fin real

definition f32_of_bits :: "float32 \<Rightarrow> fl" where
  "f32_of_bits w =
     (let neg = bit w 31;
          e = unat (drop_bit 23 w AND 0xFF);
          m = unat (w AND 0x7FFFFF);
          s = (if neg then - 1 else 1 :: real)
      in if e = 255 then (if m = 0 then (if neg then NInf else PInf) else NaN)
         else if e = 0 then Fin (s * real m / 2 ^ 149)
         else if e < 150 then Fin (s * real (2 ^ 23 + m) / 2 ^ (150 - e))
         else Fin (s * real (2 ^ 23 + m) * 2 ^ (e - 150)))"

text \<open>Go's \<open>a < b\<close>, \<open>a > b\<close> and \<open>a == b\<close> on floats: false as soon as one side is NaN.\<close>

fun flt :: "fl \<Rightarrow> fl \<Rightarrow> bool" where
  "flt NaN _ = False"
| "flt _ NaN = False"
| "flt (Fin x) (Fin y) = (x < y)"
| "flt NInf NInf = False"
| "flt NInf _ = True"
| "flt _ NInf = False"
| "flt PInf _ = False"
| "flt _ PInf = True"

definition fgt :: "fl \<Rightarrow> fl \<Rightarrow> bool" where
  "fgt a b = flt b a"

fun feq :: "fl \<Rightarrow> fl \<Rightarrow> bool" where
  "feq NaN _ = False"
| "feq _ NaN = False"
| "feq a b = (a = b)"

fun fadd :: "(real \<Rightarrow> fl) \<Rightarrow> fl \<Rightarrow> fl \<Rightarrow> fl" where
  "fadd rnd NaN _ = NaN"
| "fadd rnd _ NaN = NaN"
| "fadd rnd (Fin x) (Fin y) = rnd (x + y)"
| "fadd rnd PInf NInf = NaN"
| "fadd rnd NInf PInf = NaN"
| "fadd rnd PInf _ = PInf"
| "fadd rnd NInf _ = NInf"
| "fadd rnd _ PInf = PInf"
| "fadd rnd _ NInf = NInf"

definition fneg_inf :: "bool \<Rightarrow> fl" where
  "fneg_inf neg = (if neg then NInf else PInf)"

fun fmul :: "(real \<Rightarrow> fl) \<Rightarrow> fl \<Rightarrow> fl \<Rightarrow> fl" where
  "fmul rnd NaN _ = NaN"
| "fmul rnd _ NaN = NaN"
| "fmul rnd (Fin x) (Fin y) = rnd (x * y)"
| "fmul rnd (Fin x) PInf = (if x = 0 then NaN else fneg_inf (x < 0))"
| "fmul rnd (Fin x) NInf = (if x = 0 then NaN else fneg_inf (0 < x))"
| "fmul rnd PInf (Fin y) = (if y = 0 then NaN else fneg_inf (y < 0))"
| "fmul rnd NInf (Fin y) = (if y = 0 then NaN else fneg_inf (0 < y))"
| "fmul rnd PInf PInf = PInf"
| "fmul rnd NInf NInf = PInf"
| "fmul rnd PInf NInf = NInf"
| "fmul rnd NInf PInf = NInf"

text \<open>
  Division.  A zero divisor is read as \<open>+0\<close>; the only divisor of this program is a product
  of two square roots, which is never negative.
\<close>

fun fdiv :: "(real \<Rightarrow> fl) \<Rightarrow> fl \<Rightarrow> fl \<Rightarrow> fl" where
  "fdiv rnd NaN _ = NaN"
| "fdiv rnd _ NaN = NaN"
| "fdiv rnd (Fin x) (Fin y) =
     (if y = 0 then (if x = 0 then NaN else fneg_inf (x < 0)) else rnd (x / y))"
| "fdiv rnd (Fin x) _ = Fin 0"
| "fdiv rnd PInf (Fin y) = fneg_inf (y < 0)"
| "fdiv rnd NInf (Fin y) = fneg_inf (0 \<le> y)"
| "fdiv rnd _ _ = NaN"

fun fsqrt :: "(real \<Rightarrow> fl) \<Rightarrow> fl \<Rightarrow> fl" where
  "fsqrt rnd NaN = NaN"
| "fsqrt rnd NInf = NaN"
| "fsqrt rnd PInf = PInf"
| "fsqrt rnd (Fin x) = (if x < 0 then NaN else rnd (sqrt x))"

definition in_unit :: "fl \<Rightarrow> bool" where
  "in_unit v = (case v of Fin x \<Rightarrow> 0 \<le> x \<and> x \<le> 1 | _ \<Rightarrow> False)"

section \<open>Identifiers (core/did.go)\<close>

text \<open>
  The cryptographic primitives of the Go standard library are parameters: \<open>sha256.Sum256\<close>,
  \<open>ed25519.Sign\<close> (private key, message) and \<open>ed25519.Verify\<close> (public key, message,
  signature).
\<close>

record crypto =
  sha256_Sum256 :: "byte list \<Rightarrow> byte list"
  ed25519_Sign :: "byte list \<Rightarrow> byte list \<Rightarrow> byte list"
  ed25519_Verify :: "byte list \<Rightarrow> byte list \<Rightarrow> byte list \<Rightarrow> bool"

text \<open>\<open>hex.EncodeToString\<close>: two digits of \<open>hextable\<close> per byte, high nibble first.\<close>

definition hextable :: string where
  "hextable = ''0123456789abcdef''"

definition hex_EncodeToString :: "byte list \<Rightarrow> string" where
  "hex_EncodeToString src =
     concat (map (\<lambda>v. [hextable ! unat (drop_bit 4 v), hextable ! unat (v AND 0x0F)]) src)"

text \<open>A \<open>nil\<close> key is \<open>None\<close>.\<close>

record DID =
  Method :: string
  ID :: string
  pubKey :: "byte list option"
  privKey :: "byte list option"

definition didFromKey :: "crypto \<Rightarrow> byte list \<Rightarrow> byte list option \<Rightarrow> DID" where
  "didFromKey cr pub priv =
     \<lparr>Method = ''symplex'', ID = hex_EncodeToString (sha256_Sum256 cr pub),
      pubKey = Some pub, privKey = priv\<rparr>"

definition DID_String :: "DID \<Rightarrow> string" where
  "DID_String d = ''did:'' @ Method d @ '':'' @ ID d"

section \<open>Trust graph (core/did.go)\<close>

record TrustGraph =
  scores :: "string \<rightharpoonup> fl"

definition NewTrustGraph :: TrustGraph where
  "NewTrustGraph = \<lparr>scores = Map.empty\<rparr>"

definition trustKey :: "string \<Rightarrow> string \<Rightarrow> string" where
  "trustKey from to = from @ ''->'' @ to"

definition clamp :: "fl \<Rightarrow> fl" where
  "clamp v = (if flt v (Fin 0) then Fin 0 else if fgt v (Fin 1) then Fin 1 else v)"

text \<open>Reading a Go map at a missing key gives the zero value.\<close>

definition score_at :: "TrustGraph \<Rightarrow> string \<Rightarrow> fl" where
  "score_at tg k = (case scores tg k of None \<Rightarrow> Fin 0 | Some v \<Rightarrow> v)"

definition TrustGraph_Set :: "TrustGraph \<Rightarrow> string \<Rightarrow> string \<Rightarrow> fl \<Rightarrow> TrustGraph" where
  "TrustGraph_Set tg from to score = tg\<lparr>scores := (scores tg)(trustKey from to \<mapsto> clamp score)\<rparr>"

definition TrustGraph_Get :: "TrustGraph \<Rightarrow> string \<Rightarrow> string \<Rightarrow> fl" where
  "TrustGraph_Get tg from to = score_at tg (trustKey from to)"

definition TrustGraph_Apply ::
  "(real \<Rightarrow> fl) \<Rightarrow> TrustGraph \<Rightarrow> string \<Rightarrow> string \<Rightarrow> fl \<Rightarrow> TrustGraph" where
  "TrustGraph_Apply rnd tg from to delta =
     (let k = trustKey from to
      in tg\<lparr>scores := (scores tg)(k \<mapsto> clamp (fadd rnd (score_at tg k) delta))\<rparr>)"

text \<open>A finite sequence of \<open>Set\<close> and \<open>Apply\<close> calls, run from left to right.\<close>

datatype trust_op = OpSet string string fl | OpApply string string fl

fun trust_step :: "(real \<Rightarrow> fl) \<Rightarrow> TrustGraph \<Rightarrow> trust_op \<Rightarrow> TrustGraph" where
  "trust_step rnd tg (OpSet from to v) = TrustGraph_Set tg from to v"
| "trust_step rnd tg (OpApply from to d) = TrustGraph_Apply rnd tg from to d"

definition trust_run :: "(real \<Rightarrow> fl) \<Rightarrow> trust_op list \<Rightarrow> TrustGraph" where
  "trust_run rnd ops = foldl (trust_step rnd) NewTrustGraph ops"

fun trust_arg :: "trust_op \<Rightarrow> fl" where
  "trust_arg (OpSet _ _ v) = v"
| "trust_arg (OpApply _ _ d) = d"

text \<open>Every score of the ledger, written or not, lies in \<open>[0,1]\<close>.\<close>

definition all_in_unit :: "TrustGraph \<Rightarrow> bool" where
  "all_in_unit tg = (\<forall>k. in_unit (score_at tg k))"

section \<open>Cosine similarity (core/negotiation.go)\<close>

text \<open>
  The loop of \<open>CosineSimilarity\<close>: it runs over the indices of \<open>a\<close> and reads \<open>b\<close> at the
  same index; the guard before it makes both lengths equal.  The accumulators are
  \<open>(dot, normA, normB)\<close>, all \<open>float64\<close>; \<open>float64(x)\<close> of a \<open>float32\<close> is exact.
\<close>

fun cosine_loop ::
  "(real \<Rightarrow> fl) \<Rightarrow> float32 list \<Rightarrow> float32 list \<Rightarrow> fl \<times> fl \<times> fl \<Rightarrow> fl \<times> fl \<times> fl" where
  "cosine_loop rnd (x # xs) (y # ys) (dot, normA, normB) =
     cosine_loop rnd xs ys
       (fadd rnd dot (fmul rnd (f32_of_bits x) (f32_of_bits y)),
        fadd rnd normA (fmul rnd (f32_of_bits x) (f32_of_bits x)),
        fadd rnd normB (fmul rnd (f32_of_bits y) (f32_of_bits y)))"
| "cosine_loop rnd _ _ acc = acc"

definition CosineSimilarity :: "(real \<Rightarrow> fl) \<Rightarrow> float32 list \<Rightarrow> float32 list \<Rightarrow> fl" where
  "CosineSimilarity rnd a b =
     (if length a \<noteq> length b \<or> length a = 0 then Fin 0
      else case cosine_loop rnd a b (Fin 0, Fin 0, Fin 0) of
        (dot, normA, normB) \<Rightarrow>
          if feq normA (Fin 0) \<or> feq normB (Fin 0) then Fin 0
          else fdiv rnd dot (fmul rnd (fsqrt rnd normA) (fsqrt rnd normB)))"

section \<open>Properties of the trust graph\<close>

lemma flt_NaN_right [simp]: "flt a NaN = False"
  by (cases a) simp_all

lemma clamp_in_unit: "v \<noteq> NaN \<Longrightarrow> in_unit (clamp v)"
  by (cases v) (auto simp: clamp_def fgt_def in_unit_def)

lemma fadd_not_NaN:
  assumes "\<And>r. rnd r \<noteq> NaN" and "in_unit a" and "d \<noteq> NaN"
  shows "fadd rnd a d \<noteq> NaN"
  using assms by (cases a; cases d) (auto simp: in_unit_def)

lemma all_in_unit_New: "all_in_unit NewTrustGraph"
  by (simp add: all_in_unit_def NewTrustGraph_def score_at_def in_unit_def)

lemma all_in_unit_step:
  assumes "\<And>r. rnd r \<noteq> NaN" and "all_in_unit tg" and "trust_arg t \<noteq> NaN"
  shows "all_in_unit (trust_step rnd tg t)"
proof (cases t)
  case (OpSet a b v)
  with assms show ?thesis
    by (auto simp: all_in_unit_def TrustGraph_Set_def score_at_def clamp_in_unit)
next
  case (OpApply a b d)
  have "in_unit (score_at tg (trustKey a b))"
    using assms(2) by (simp add: all_in_unit_def)
  then have "fadd rnd (score_at tg (trustKey a b)) d \<noteq> NaN"
    using assms(1,3) OpApply by (intro fadd_not_NaN) auto
  then have "in_unit (clamp (fadd rnd (score_at tg (trustKey a b)) d))"
    by (rule clamp_in_unit)
  with assms(2) OpApply show ?thesis
    by (auto simp: all_in_unit_def TrustGraph_Apply_def Let_def score_at_def)
qed

lemma all_in_unit_foldl:
  assumes "\<And>r. rnd r \<noteq> NaN" and "all_in_unit tg" and "\<forall>t \<in> set ops. trust_arg t \<noteq> NaN"
  shows "all_in_unit (foldl (trust_step rnd) tg ops)"
  using assms(2,3)
proof (induction ops arbitrary: tg)
  case Nil
  then show ?case by simp
next
  case (Cons t ops)
  have "all_in_unit (trust_step rnd tg t)"
    using assms(1) Cons.prems by (intro all_in_unit_step) auto
  with Cons show ?case by simp
qed

text \<open>
  What the clamp does guarantee: as long as no argument is NaN (and rounding never
  produces one), every score read from the ledger lies in \<open>[0,1]\<close>.
\<close>

lemma trust_scores_in_unit_without_NaN:
  assumes "\<And>r. rnd r \<noteq> NaN" and "\<forall>t \<in> set ops. trust_arg t \<noteq> NaN"
  shows "in_unit (TrustGraph_Get (trust_run rnd ops) from to)"
proof -
  have "all_in_unit (trust_run rnd ops)"
    unfolding trust_run_def using assms all_in_unit_New by (intro all_in_unit_foldl) auto
  then show ?thesis by (simp add: all_in_unit_def TrustGraph_Get_def)
qed

text \<open>
  C8.  The claim: from an empty ledger, after any sequence of \<open>Set\<close> and \<open>Apply\<close> calls with
  arbitrary float arguments, every value returned by \<open>Get\<close> lies in \<open>[0,1]\<close>.  The code
  misses NaN: both comparisons of \<open>clamp\<close> are false on it, so \<open>clamp\<close> returns it and
  the ledger stores it.  The bit pattern \<open>0x7FC00000\<close> is the NaN a peer can put into the
  \<open>trust_delta\<close> field of a negotiation response, which \<open>SendIntent\<close> hands to \<open>Apply\<close>.
\<close>

theorem trust_apply_NaN_escapes_clamp:
  "TrustGraph_Get (trust_run rnd [OpApply ''did:symplex:aa'' ''did:symplex:bb'' (f32_of_bits 0x7FC00000)])
       ''did:symplex:aa'' ''did:symplex:bb'' = NaN
   \<and> \<not> in_unit (TrustGraph_Get
         (trust_run rnd [OpApply ''did:symplex:aa'' ''did:symplex:bb'' (f32_of_bits 0x7FC00000)])
         ''did:symplex:aa'' ''did:symplex:bb'')"
proof -
  have bits: "f32_of_bits 0x7FC00000 = NaN"
    by (simp add: f32_of_bits_def Let_def bit_numeral_word_iff drop_bit_eq_div)
  show ?thesis
    by (simp add: bits trust_run_def TrustGraph_Apply_def TrustGraph_Get_def score_at_def
        NewTrustGraph_def clamp_def fgt_def in_unit_def Let_def)
qed

lemma trust_frame_on_distinct_keys:
  assumes "trustKey from to \<noteq> trustKey from' to'"
  shows "TrustGraph_Get (TrustGraph_Set tg from to v) from' to' = TrustGraph_Get tg from' to'"
    and "TrustGraph_Get (TrustGraph_Apply rnd tg from to d) from' to' = TrustGraph_Get tg from' to'"
  using assms
  by (auto simp: TrustGraph_Get_def TrustGraph_Set_def TrustGraph_Apply_def score_at_def Let_def)

text \<open>
  The ledger keys the edge \<open>(from, to)\<close> by the string \<open>from + "->" + to\<close>.  The key
  determines the edge as soon as the \<open>from\<close> strings contain no \<open>>\<close>: the first \<open>>\<close> of
  the key then ends the separator.
\<close>

lemma trustKey_inj_no_gt:
  assumes "CHR ''>'' \<notin> set from" and "CHR ''>'' \<notin> set from'"
    and "trustKey from to = trustKey from' to'"
  shows "from = from' \<and> to = to'"
proof -
  have eq: "from @ (CHR ''-'' # CHR ''>'' # to) = from' @ (CHR ''-'' # CHR ''>'' # to')"
    using assms(3) by (simp add: trustKey_def)
  have "takeWhile (\<lambda>c. c \<noteq> CHR ''>'') (from @ (CHR ''-'' # CHR ''>'' # to)) = from @ [CHR ''-'']"
    using assms(1) by (subst takeWhile_append2) auto
  moreover have "takeWhile (\<lambda>c. c \<noteq> CHR ''>'') (from' @ (CHR ''-'' # CHR ''>'' # to')) = from' @ [CHR ''-'']"
    using assms(2) by (subst takeWhile_append2) auto
  ultimately have "from = from'" using eq by simp
  with eq show ?thesis by simp
qed

text \<open>
  The DID strings of this program, \<open>did:symplex:<hex of the key's SHA-256>\<close> as \<open>didFromKey\<close>
  and \<open>String\<close> build them, contain no \<open>>\<close>, whatever the hash function returns.  Every
  caller of the ledger passes the local agent's own such string as \<open>from\<close>.
\<close>

lemma hi_nibble: "unat (drop_bit 4 (v :: byte)) < 16"
proof -
  have "unat v < 2 ^ LENGTH(8)" by (rule unsigned_less)
  then show ?thesis by (simp add: drop_bit_eq_div unat_div)
qed

lemma lo_nibble: "unat ((v :: byte) AND 0x0F) < 16"
proof -
  have "v AND 0x0F \<le> 0x0F" by (rule word_and_le1)
  then show ?thesis by (simp add: word_le_nat_alt)
qed

lemma hextable_no_gt: "n < 16 \<Longrightarrow> hextable ! n \<noteq> CHR ''>''"
proof -
  assume "n < 16"
  then have "hextable ! n \<in> set hextable" by (intro nth_mem) (simp add: hextable_def)
  then show ?thesis by (auto simp: hextable_def)
qed

lemma hex_no_gt: "CHR ''>'' \<notin> set (hex_EncodeToString src)"
proof -
  have hi: "CHR ''>'' \<noteq> hextable ! unat (drop_bit 4 v)" for v :: byte
    using hextable_no_gt [OF hi_nibble, of v] by simp
  have lo: "CHR ''>'' \<noteq> hextable ! unat (v AND 0x0F)" for v :: byte
    using hextable_no_gt [OF lo_nibble, of v] by simp
  show ?thesis
    by (induction src) (simp_all add: hex_EncodeToString_def hi lo)
qed

lemma DID_String_no_gt: "CHR ''>'' \<notin> set (DID_String (didFromKey cr pub priv))"
  by (simp add: DID_String_def didFromKey_def hex_no_gt)

text \<open>
  Without that condition on \<open>from\<close> two different pairs of strings can share a key.
\<close>

lemma trustKey_collision:
  "(''did:m:a'', ''did:m:b->did:m:c'') \<noteq> (''did:m:a->did:m:b'', ''did:m:c'')
   \<and> trustKey ''did:m:a'' ''did:m:b->did:m:c'' = trustKey ''did:m:a->did:m:b'' ''did:m:c''"
  by (simp add: trustKey_def)

text \<open>
  C9.  A \<open>Set\<close> or an \<open>Apply\<close> on the edge \<open>(from, to)\<close> leaves \<open>Get\<close> of every other edge
  \<open>(from', to')\<close> unchanged, for every ledger, score and delta, whenever \<open>from\<close> and \<open>from'\<close>
  are DID strings of the program: what is used of them is that they contain no \<open>>\<close>
  (lemma \<open>DID_String_no_gt\<close>).  The strings \<open>to\<close> and \<open>to'\<close>, which come from the wire, are
  arbitrary.
\<close>

theorem trust_updates_leave_other_edges:
  assumes "CHR ''>'' \<notin> set from" and "CHR ''>'' \<notin> set from'"
    and "(from, to) \<noteq> (from', to')"
  shows "TrustGraph_Get (TrustGraph_Set tg from to v) from' to' = TrustGraph_Get tg from' to'
     \<and> TrustGraph_Get (TrustGraph_Apply rnd tg from to d) from' to' = TrustGraph_Get tg from' to'"
proof -
  have "trustKey from to \<noteq> trustKey from' to'"
    using assms trustKey_inj_no_gt by blast
  then show ?thesis
    by (simp add: trust_frame_on_distinct_keys)
qed

theorem trust_updates_leave_other_edges_witness:
  "CHR ''>'' \<notin> set ''did:symplex:0a''
   \<and> (''did:symplex:0a'', ''did:symplex:0b'') \<noteq> (''did:symplex:0a'', ''did:symplex:0c'')
   \<and> TrustGraph_Get
         (TrustGraph_Set (TrustGraph_Set NewTrustGraph ''did:symplex:0a'' ''did:symplex:0c'' (Fin (1/2)))
            ''did:symplex:0a'' ''did:symplex:0b'' (Fin 1))
         ''did:symplex:0a'' ''did:symplex:0c'' = Fin (1/2)
   \<and> TrustGraph_Get
         (TrustGraph_Apply (\<lambda>r. Fin r)
            (TrustGraph_Set NewTrustGraph ''did:symplex:0a'' ''did:symplex:0c'' (Fin (1/2)))
            ''did:symplex:0a'' ''did:symplex:0b'' (Fin 1))
         ''did:symplex:0a'' ''did:symplex:0c'' = Fin (1/2)"
proof -
  have g: "TrustGraph_Get (TrustGraph_Set NewTrustGraph ''did:symplex:0a'' ''did:symplex:0c'' (Fin (1/2)))
      ''did:symplex:0a'' ''did:symplex:0c'' = Fin (1/2)"
    by (simp add: TrustGraph_Get_def TrustGraph_Set_def score_at_def clamp_def fgt_def)
  from trust_updates_leave_other_edges [of "''did:symplex:0a''" "''did:symplex:0a''"
      "''did:symplex:0b''" "''did:symplex:0c''"
      "TrustGraph_Set NewTrustGraph ''did:symplex:0a'' ''did:symplex:0c'' (Fin (1/2))"
      "Fin 1" "\<lambda>r. Fin r" "Fin 1"]
  show ?thesis by (simp add: g)
qed

section \<open>Properties of the cosine similarity\<close>

lemma fmul_commute: "fmul rnd a b = fmul rnd b a"
  by (cases a; cases b) (simp_all add: mult.commute)

lemma cosine_loop_swap:
  "length a = length b \<Longrightarrow>
   cosine_loop rnd a b (d, na, nb) = (d', na', nb') \<Longrightarrow>
   cosine_loop rnd b a (d, nb, na) = (d', nb', na')"
proof (induction a arbitrary: b d na nb)
  case Nil
  then show ?case by simp
next
  case (Cons x xs)
  then obtain y ys where b: "b = y # ys" and len: "length xs = length ys"
    by (cases b) auto
  from Cons.prems(2) Cons.IH [OF len] show ?case
    unfolding b by (simp add: fmul_commute [of rnd "f32_of_bits y" "f32_of_bits x"])
qed

text \<open>
  Swapping the arguments swaps the two norms and leaves the dot product, because the
  multiplication commutes: both orders compute the same value.
\<close>

lemma CosineSimilarity_swap:
  "CosineSimilarity rnd a b = CosineSimilarity rnd b a"
proof (cases "length a \<noteq> length b \<or> length a = 0")
  case True
  then show ?thesis by (auto simp: CosineSimilarity_def)
next
  case False
  then have len: "length a = length b" by simp
  obtain d na nb where l: "cosine_loop rnd a b (Fin 0, Fin 0, Fin 0) = (d, na, nb)"
    by (cases "cosine_loop rnd a b (Fin 0, Fin 0, Fin 0)") auto
  from cosine_loop_swap [OF len l]
  have r: "cosine_loop rnd b a (Fin 0, Fin 0, Fin 0) = (d, nb, na)" .
  show ?thesis
    using False len
    by (auto simp: CosineSimilarity_def l r fmul_commute [of rnd "fsqrt rnd na" "fsqrt rnd nb"])
qed

lemma feq_refl_iff: "feq x x = (x \<noteq> NaN)"
  by (cases x) simp_all

lemma f32_of_bits_PInf: "f32_of_bits 0x7F800000 = PInf"
  by (simp add: f32_of_bits_def Let_def bit_numeral_word_iff drop_bit_eq_div)

lemma f32_of_bits_NInf: "f32_of_bits 0xFF800000 = NInf"
  by (simp add: f32_of_bits_def Let_def bit_numeral_word_iff drop_bit_eq_div)

lemma f32_of_bits_one: "f32_of_bits 0x3F800000 = Fin 1"
  by (simp add: f32_of_bits_def Let_def bit_numeral_word_iff drop_bit_eq_div)

lemma f32_of_bits_two: "f32_of_bits 0x40000000 = Fin 2"
  by (simp add: f32_of_bits_def Let_def bit_numeral_word_iff drop_bit_eq_div)

text \<open>
  C10.  For all vectors \<open>a\<close> and \<open>b\<close>, also when the lengths differ, a vector is empty or a
  norm is zero, both argument orders of \<open>CosineSimilarity\<close> compute the same \<open>float64\<close>:
  the same number, or NaN in both orders.  Go's \<open>==\<close> on the two results (\<open>feq\<close>) is
  therefore true exactly when the result is not NaN; it does not distinguish the two
  zeros, which this view of a float identifies.
\<close>

theorem CosineSimilarity_symmetric_up_to_NaN:
  "CosineSimilarity rnd a b = CosineSimilarity rnd b a
   \<and> feq (CosineSimilarity rnd a b) (CosineSimilarity rnd b a) = (CosineSimilarity rnd a b \<noteq> NaN)"
  using CosineSimilarity_swap [of rnd a b] by (simp add: feq_refl_iff)

theorem CosineSimilarity_symmetric_up_to_NaN_witness:
  "CosineSimilarity (\<lambda>r. Fin r) [0x3F800000] [0x40000000] = Fin 1
   \<and> CosineSimilarity (\<lambda>r. Fin r) [0x40000000] [0x3F800000] = Fin 1
   \<and> feq (CosineSimilarity (\<lambda>r. Fin r) [0x3F800000] [0x40000000])
         (CosineSimilarity (\<lambda>r. Fin r) [0x40000000] [0x3F800000])"
proof -
  let ?A = "CosineSimilarity (\<lambda>r. Fin r) [0x3F800000] [0x40000000]"
  let ?B = "CosineSimilarity (\<lambda>r. Fin r) [0x40000000] [0x3F800000]"
  have v: "?A = Fin 1"
    by (simp add: CosineSimilarity_def f32_of_bits_one f32_of_bits_two)
  then have n: "?A \<noteq> NaN" by simp
  from CosineSimilarity_symmetric_up_to_NaN [of "\<lambda>r. Fin r" "[0x3F800000]" "[0x40000000]"]
  have s: "?A = ?B" and f: "feq ?A ?B = (?A \<noteq> NaN)" by blast+
  from s v have w: "?B = Fin 1" by metis
  from f n have "feq ?A ?B" by blast
  with v w show ?thesis by blast
qed

text \<open>
  The exception is real: for \<open>a = [+Inf]\<close> and \<open>b = [-Inf]\<close> the dot product is \<open>-Inf\<close>, both
  norms are \<open>+Inf\<close>, and \<open>-Inf / +Inf\<close> is NaN in both orders, whatever the rounding.  The two
  results are not equal under \<open>==\<close>.
\<close>

theorem CosineSimilarity_NaN_not_equal_to_itself:
  "\<forall>rnd. CosineSimilarity rnd [0x7F800000] [0xFF800000] = NaN
     \<and> CosineSimilarity rnd [0xFF800000] [0x7F800000] = NaN
     \<and> \<not> feq (CosineSimilarity rnd [0x7F800000] [0xFF800000])
             (CosineSimilarity rnd [0xFF800000] [0x7F800000])"
  by (simp add: CosineSimilarity_def f32_of_bits_PInf f32_of_bits_NInf fneg_inf_def)

end
